theory Spec2Isabelle
  imports Complex_Main "HOL-Library.Sublist"
begin

chapter \<open>The donkeycar drive template (templates/complete.py)\<close>

text \<open>
  A shallow embedding of the parts that \<^verbatim>\<open>drive(cfg, ...)\<close> defines inline and of the
  start-up decisions it takes, followed by the properties of the specification that are
  settled on them. Channel values are modelled with the type the channel carries and
  \<open>None\<close> for Python's \<^verbatim>\<open>None\<close> (an absent channel reads as \<^verbatim>\<open>None\<close>); a float is a
  \<open>real\<close>, the single multiplication of the template being the only arithmetic on it.
\<close>

section \<open>Python strings\<close>

text \<open>\<^verbatim>\<open>s.endswith(suf)\<close>, \<^verbatim>\<open>s.startswith(pre)\<close> and \<^verbatim>\<open>sub in s\<close> on strings.\<close>

definition endswith :: "string \<Rightarrow> string \<Rightarrow> bool" where
  "endswith s suf = (length suf \<le> length s \<and> drop (length s - length suf) s = suf)"

definition startswith :: "string \<Rightarrow> string \<Rightarrow> bool" where
  "startswith s pre = (take (length pre) s = pre)"


text \<open>
  \<^verbatim>\<open>s.replace(old, new)\<close>: every occurrence of \<open>old\<close>, found left to right without overlap,
  becomes \<open>new\<close>; an empty \<open>old\<close> matches before every character and at the end.
\<close>

fun replace_nonempty :: "string \<Rightarrow> string \<Rightarrow> string \<Rightarrow> string" where
  "replace_nonempty old new [] = []"
| "replace_nonempty old new (c # cs) =
     (if startswith (c # cs) old
      then new @ replace_nonempty old new (drop (length old - 1) cs)
      else c # replace_nonempty old new cs)"

definition replace :: "string \<Rightarrow> string \<Rightarrow> string \<Rightarrow> string" where
  "replace old new s =
     (if old = [] then new @ concat (map (\<lambda>c. c # new) s) else replace_nonempty old new s)"

section \<open>The configuration and the values on the channels\<close>

type_synonym rgb = "int \<times> int \<times> int"

text \<open>
  The attributes of \<^verbatim>\<open>cfg\<close> that the modelled code reads. The configuration module is
  not part of the template, so every attribute is a parameter. A colour table is given by
  its subscript operation: \<open>LOC_COLORS cfg k = None\<close> where \<^verbatim>\<open>cfg.LOC_COLORS[k]\<close> raises
  (IndexError on a list, KeyError on a dict).
\<close>

record config =
  HAVE_ODOM :: bool
  TRAIN_LOCALIZER :: bool
  TRAIN_BEHAVIORS :: bool
  DEFAULT_MODEL_TYPE :: string
  AI_THROTTLE_MULT :: real
  RECORD_DURING_AI :: bool
  REC_COUNT_ALERT :: int
  REC_COUNT_ALERT_CYC :: int
  REC_COUNT_ALERT_BLINK_RATE :: real
  RECORD_ALERT_COLOR_ARR :: "(int \<times> rgb) list"
  LOC_COLORS :: "int \<rightharpoonup> rgb"
  BEHAVIOR_LED_COLORS :: "int \<rightharpoonup> rgb"
  LED_RGB :: rgb
  MODEL_RELOADED_LED_RGB :: rgb
  DONKEY_GYM :: bool
  DRIVE_TRAIN_TYPE :: string
  STEERING_LEFT_PWM :: int
  STEERING_RIGHT_PWM :: int

text \<open>A configuration for the worked examples (the values are an example, not the defaults).\<close>

definition example_cfg :: config where
  "example_cfg =
     \<lparr>HAVE_ODOM = True, TRAIN_LOCALIZER = False, TRAIN_BEHAVIORS = False,
      DEFAULT_MODEL_TYPE = ''linear'', AI_THROTTLE_MULT = 4 / 5, RECORD_DURING_AI = True,
      REC_COUNT_ALERT = 1000, REC_COUNT_ALERT_CYC = 15, REC_COUNT_ALERT_BLINK_RATE = 2 / 5,
      RECORD_ALERT_COLOR_ARR = [(0, (1, 1, 1)), (3000, (5, 5, 5))],
      LOC_COLORS = map_of [(0, (255, 0, 0)), (1, (0, 255, 0))],
      BEHAVIOR_LED_COLORS = map_of [(0, (0, 10, 0)), (1, (10, 0, 0))],
      LED_RGB = (0, 0, 1), MODEL_RELOADED_LED_RGB = (100, 0, 0),
      DONKEY_GYM = False, DRIVE_TRAIN_TYPE = ''PWM_STEERING_THROTTLE'',
      STEERING_LEFT_PWM = 460, STEERING_RIGHT_PWM = 290\<rparr>"

text \<open>Truth value of a nullable float: \<^verbatim>\<open>None\<close> and zero are false.\<close>

definition truthy :: "real option \<Rightarrow> bool" where
  "truthy v = (case v of None \<Rightarrow> False | Some x \<Rightarrow> x \<noteq> 0)"

section \<open>Start-up decisions of drive\<close>

text \<open>Lines 74 to 83: the model type in force and the speed-control capability.\<close>

definition resolve_model_type :: "config \<Rightarrow> string option \<Rightarrow> string" where
  "resolve_model_type cfg model_type =
     (case model_type of
        None \<Rightarrow>
          (if TRAIN_LOCALIZER cfg then ''localizer''
           else if TRAIN_BEHAVIORS cfg then ''behavior''
           else DEFAULT_MODEL_TYPE cfg)
      | Some t \<Rightarrow> t)"

definition is_velocity_model :: "config \<Rightarrow> string option \<Rightarrow> bool" where
  "is_velocity_model cfg model_type = endswith (resolve_model_type cfg model_type) ''velocity''"

definition have_speed_control :: "config \<Rightarrow> string option \<Rightarrow> bool" where
  "have_speed_control cfg model_type = (HAVE_ODOM cfg \<and> is_velocity_model cfg model_type)"

section \<open>Gating conditions\<close>

definition PilotCondition_run :: "string option \<Rightarrow> bool" where
  "PilotCondition_run mode = (if mode = Some ''user'' then False else True)"

text \<open>The first argument is the field \<^verbatim>\<open>self.have_speed_control\<close> set by the constructor.\<close>

definition SpeedControlCondition_run :: "bool \<Rightarrow> string option \<Rightarrow> bool" where
  "SpeedControlCondition_run self_have_speed_control mode =
     (self_have_speed_control \<and> mode = Some ''local'')"

definition NotCondition_run :: "bool \<Rightarrow> bool" where
  "NotCondition_run condition = (\<not> condition)"

text \<open>
  Lines 164 and 165: the two parts run one after the other in every pass, the second reading
  the channel the first has just written. The pair is (use_speed_control,
  use_throttle_control) after the pass.
\<close>

definition speed_control_channels :: "bool \<Rightarrow> string option \<Rightarrow> bool \<times> bool" where
  "speed_control_channels flag mode =
     (let use_speed_control = SpeedControlCondition_run flag mode;
          use_throttle_control = NotCondition_run use_speed_control
      in (use_speed_control, use_throttle_control))"

text \<open>The use_speed_control channel of a vehicle built by \<^verbatim>\<open>drive(cfg, model_type=...)\<close>.\<close>

definition use_speed_control :: "config \<Rightarrow> string option \<Rightarrow> string option \<Rightarrow> bool" where
  "use_speed_control cfg model_type mode =
     fst (speed_control_channels (have_speed_control cfg model_type) mode)"

definition AiRunCondition_run :: "string option \<Rightarrow> bool" where
  "AiRunCondition_run mode = (if mode = Some ''user'' then False else True)"

definition AiRecordingCondition_run :: "string option \<Rightarrow> bool option \<Rightarrow> bool option" where
  "AiRecordingCondition_run mode recording = (if mode = Some ''user'' then recording else Some True)"

text \<open>
  Lines 572 and 573: the part is registered only when \<^verbatim>\<open>cfg.RECORD_DURING_AI\<close> is set; it
  reads and rewrites the recording channel. Without it the channel keeps its value.
\<close>

definition recording_channel :: "config \<Rightarrow> string option \<Rightarrow> bool option \<Rightarrow> bool option" where
  "recording_channel cfg mode recording =
     (if RECORD_DURING_AI cfg then AiRecordingCondition_run mode recording else recording)"

section \<open>The command blend\<close>

text \<open>\<^verbatim>\<open>DriveMode.run\<close>; the result is (angle, throttle, speed, angular_velocity).\<close>

definition DriveMode_run ::
  "config \<Rightarrow> string option \<Rightarrow> real option \<Rightarrow> real option \<Rightarrow> real option \<Rightarrow> real option \<Rightarrow>
   real option \<Rightarrow> real option \<Rightarrow> real option \<times> real option \<times> real option \<times> real option" where
  "DriveMode_run cfg mode user_angle user_throttle pilot_angle pilot_throttle pilot_speed
     pilot_angular_velocity =
     (if mode = Some ''user'' then (user_angle, user_throttle, None, None)
      else if mode = Some ''local_angle'' then
        (if truthy pilot_angle then pilot_angle else Some 0, user_throttle, None, None)
      else
        (if truthy pilot_angle then pilot_angle else Some 0,
         (case pilot_throttle of
            Some t \<Rightarrow> if t \<noteq> 0 then Some (t * AI_THROTTLE_MULT cfg) else Some 0
          | None \<Rightarrow> Some 0),
         pilot_speed, pilot_angular_velocity))"

section \<open>Errors\<close>

text \<open>The exceptions the modelled code can raise by itself, as values.\<close>

datatype py_error = LookupError | ZeroDivisionError | UnboundLocalError | AssertionError

section \<open>The status LED\<close>

text \<open>
  The records/alert channel: \<^verbatim>\<open>RecordTracker.run\<close> returns the integer 0 or a colour
  tuple. A colour tuple has three components, so it is true as a condition whatever the
  components are; \<open>NoAlert\<close> is the 0, and stands as well for the \<^verbatim>\<open>None\<close> that the
  channel reads as before its first write, which is false as a condition too. The flags
  \<^verbatim>\<open>recording\<close> and \<^verbatim>\<open>model_file_changed\<close> are used as conditions only and are
  booleans.
\<close>

datatype alert = NoAlert | AlertColor rgb

text \<open>
  \<^verbatim>\<open>LedConditionLogic.run\<close>. The part closes over \<^verbatim>\<open>cfg\<close>, over the model type in force
  and over the LED; the result is the blink rate returned together with the colour the LED
  was last set to. Every path sets the colour before it returns, so the colour on entry
  is no input. \<open>LED_RGB\<close> stands for the three attributes \<^verbatim>\<open>LED_R, LED_G, LED_B\<close>, and
  \<open>MODEL_RELOADED_LED_RGB\<close> likewise.
\<close>

definition LedConditionLogic_run ::
  "config \<Rightarrow> string \<Rightarrow> string option \<Rightarrow> bool \<Rightarrow> alert \<Rightarrow> int option \<Rightarrow> bool \<Rightarrow> int option \<Rightarrow>
   py_error + real \<times> rgb" where
  "LedConditionLogic_run cfg model_type mode recording recording_alert behavior_state
     model_file_changed track_loc =
     (case track_loc of
        Some loc \<Rightarrow>
          (case LOC_COLORS cfg loc of None \<Rightarrow> Inl LookupError | Some c \<Rightarrow> Inr (- 1, c))
      | None \<Rightarrow>
          if model_file_changed then Inr (1 / 10, MODEL_RELOADED_LED_RGB cfg)
          else
            (case recording_alert of
               AlertColor c \<Rightarrow> Inr (REC_COUNT_ALERT_BLINK_RATE cfg, c)
             | NoAlert \<Rightarrow>
                 if behavior_state \<noteq> None \<and> model_type = ''behavior'' then
                   (case BEHAVIOR_LED_COLORS cfg (the behavior_state) of
                      None \<Rightarrow> Inl LookupError
                    | Some c \<Rightarrow> Inr (- 1, c))
                 else if recording then Inr (- 1, LED_RGB cfg)
                 else if mode = Some ''user'' then Inr (1, LED_RGB cfg)
                 else if mode = Some ''local_angle'' then Inr (1 / 2, LED_RGB cfg)
                 else if mode = Some ''local'' then Inr (1 / 10, LED_RGB cfg)
                 else Inr (0, LED_RGB cfg)))"

text \<open>The blink rate of a result, when the call returned.\<close>

definition returned_rate :: "py_error + real \<times> rgb \<Rightarrow> real option" where
  "returned_rate r = (case r of Inl e \<Rightarrow> None | Inr (rate, colour) \<Rightarrow> Some rate)"

text \<open>
  The priority rules as the specification lists them: each rule is its condition and its
  blink rate, the first rule whose condition holds wins, and the rate is 0 (off) when no
  rule matches.
\<close>

fun first_match :: "(bool \<times> real) list \<Rightarrow> real \<Rightarrow> real" where
  "first_match [] off = off"
| "first_match ((condition, rate) # rules) off =
     (if condition then rate else first_match rules off)"

definition led_rules ::
  "config \<Rightarrow> string \<Rightarrow> string option \<Rightarrow> bool \<Rightarrow> alert \<Rightarrow> int option \<Rightarrow> bool \<Rightarrow> int option \<Rightarrow>
   (bool \<times> real) list" where
  "led_rules cfg model_type mode recording recording_alert behavior_state model_file_changed
     track_loc =
     [(track_loc \<noteq> None, - 1),
      (model_file_changed, 1 / 10),
      (recording_alert \<noteq> NoAlert, REC_COUNT_ALERT_BLINK_RATE cfg),
      (behavior_state \<noteq> None \<and> model_type = ''behavior'', - 1),
      (recording, - 1),
      (mode = Some ''user'', 1),
      (mode = Some ''local_angle'', 1 / 2),
      (mode = Some ''local'', 1 / 10)]"

text \<open>
  The inputs on which the rule that wins looks its colour up in a table that has no entry
  for the key: the location rule with an unknown location, or the behaviour rule with an
  unknown state.
\<close>

definition led_lookup_fails ::
  "config \<Rightarrow> string \<Rightarrow> alert \<Rightarrow> int option \<Rightarrow> bool \<Rightarrow> int option \<Rightarrow> bool" where
  "led_lookup_fails cfg model_type recording_alert behavior_state model_file_changed track_loc =
     (case track_loc of
        Some loc \<Rightarrow> LOC_COLORS cfg loc = None
      | None \<Rightarrow>
          (case behavior_state of
             Some b \<Rightarrow>
               BEHAVIOR_LED_COLORS cfg b = None \<and> model_type = ''behavior''
               \<and> recording_alert = NoAlert \<and> model_file_changed = False
           | None \<Rightarrow> False))"

section \<open>The record counter\<close>

text \<open>\<^verbatim>\<open>get_record_alert_color\<close>: the colour of the last threshold that is reached.\<close>

definition get_record_alert_color :: "config \<Rightarrow> int \<Rightarrow> rgb" where
  "get_record_alert_color cfg num_records =
     fold (\<lambda>(count, color) col. if num_records \<ge> count then color else col)
       (RECORD_ALERT_COLOR_ARR cfg) (0, 0, 0)"

record RecordTracker =
  last_num_rec_print :: int
  dur_alert :: int
  force_alert :: int

definition RecordTracker_init :: RecordTracker where
  "RecordTracker_init = \<lparr>last_num_rec_print = 0, dur_alert = 0, force_alert = 0\<rparr>"

text \<open>
  \<^verbatim>\<open>RecordTracker.run\<close>. The result is the value returned, the object after the call and
  the record counts printed on the console. \<^verbatim>\<open>num_records % cfg.REC_COUNT_ALERT\<close> is
  evaluated whenever the count changed or an alert is forced, and raises on a zero divisor;
  Python's \<^verbatim>\<open>%\<close> and \<^verbatim>\<open>//\<close> on integers are the floored \<open>mod\<close> and \<open>div\<close> of \<open>int\<close>.
\<close>

definition RecordTracker_run ::
  "config \<Rightarrow> RecordTracker \<Rightarrow> int option \<Rightarrow> py_error + alert \<times> RecordTracker \<times> int list" where
  "RecordTracker_run cfg self num_records =
     (case num_records of
        None \<Rightarrow> Inr (NoAlert, self, [])
      | Some n \<Rightarrow>
          (let changed = (last_num_rec_print self \<noteq> n \<or> force_alert self \<noteq> 0)
           in if changed \<and> REC_COUNT_ALERT cfg = 0 then Inl ZeroDivisionError
              else
                (let printed = (if changed \<and> n mod 10 = 0 then [n] else []);
                     self1 = (if changed then self\<lparr>last_num_rec_print := n\<rparr> else self);
                     self2 =
                       (if changed \<and> (n mod REC_COUNT_ALERT cfg = 0 \<or> force_alert self1 \<noteq> 0)
                        then self1\<lparr>dur_alert := n div REC_COUNT_ALERT cfg * REC_COUNT_ALERT_CYC cfg,
                                   force_alert := 0\<rparr>
                        else self1);
                     self3 =
                       (if dur_alert self2 > 0 then self2\<lparr>dur_alert := dur_alert self2 - 1\<rparr>
                        else self2)
                 in if dur_alert self3 \<noteq> 0
                    then Inr (AlertColor (get_record_alert_color cfg n), self3, printed)
                    else Inr (NoAlert, self3, printed))))"

section \<open>Drivetrain set-up\<close>

text \<open>
  A registered part: the class of the part, its input channels and whether it runs threaded.
  The vehicle is the list of its parts in registration order.
\<close>

datatype part = Part string "string list" bool

text \<open>
  \<^verbatim>\<open>add_drivetrain(V, cfg)\<close>. The constructors of the actuator classes and the pin factories
  are hardware drivers and are taken to return. Two branches can raise by themselves: the
  'DC_STEER_THROTTLE' branch reads \<^verbatim>\<open>Mini_HBridge_DC_Motor_PWM\<close>, a name that is local to
  the function (the import in the 'SERVO_HBRIDGE_PWM' branch binds it) and unbound on this
  path; the 'SERVO_HBRIDGE_PWM' branch asserts that both steering pulses are at most 200.
  The chain of \<^verbatim>\<open>elif\<close> has no final \<^verbatim>\<open>else\<close>.
\<close>

definition add_drivetrain :: "part list \<Rightarrow> config \<Rightarrow> py_error + part list" where
  "add_drivetrain V cfg =
     (if \<not> DONKEY_GYM cfg \<and> DRIVE_TRAIN_TYPE cfg \<noteq> ''MOCK'' then
        if DRIVE_TRAIN_TYPE cfg = ''PWM_STEERING_THROTTLE'' then
          Inr (V @ [Part ''PWMSteering'' [''angle''] True, Part ''PWMThrottle'' [''throttle''] True])
        else if DRIVE_TRAIN_TYPE cfg = ''I2C_SERVO'' then
          Inr (V @ [Part ''PWMSteering'' [''angle''] True, Part ''PWMThrottle'' [''throttle''] True])
        else if DRIVE_TRAIN_TYPE cfg = ''DC_STEER_THROTTLE'' then
          Inl UnboundLocalError
        else if DRIVE_TRAIN_TYPE cfg = ''DC_TWO_WHEEL'' then
          Inr (V @ [Part ''L298N_HBridge_2pin'' [''left/throttle''] False,
                    Part ''L298N_HBridge_2pin'' [''right/throttle''] False])
        else if DRIVE_TRAIN_TYPE cfg = ''DC_TWO_WHEEL_L298N'' then
          Inr (V @ [Part ''L298N_HBridge_3pin'' [''left/throttle''] False,
                    Part ''L298N_HBridge_3pin'' [''right/throttle''] False])
        else if DRIVE_TRAIN_TYPE cfg = ''SERVO_HBRIDGE_2PIN'' then
          Inr (V @ [Part ''PWMSteering'' [''angle''] True,
                    Part ''L298N_HBridge_2pin'' [''throttle''] False])
        else if DRIVE_TRAIN_TYPE cfg = ''SERVO_HBRIDGE_3PIN'' then
          Inr (V @ [Part ''PWMSteering'' [''angle''] True,
                    Part ''L298N_HBridge_3pin'' [''throttle''] False])
        else if DRIVE_TRAIN_TYPE cfg = ''SERVO_HBRIDGE_PWM'' then
          if STEERING_LEFT_PWM cfg > 200 then Inl AssertionError
          else if STEERING_RIGHT_PWM cfg > 200 then Inl AssertionError
          else Inr (V @ [Part ''PWMSteering'' [''angle''] True,
                         Part ''Mini_HBridge_DC_Motor_PWM'' [''throttle''] False])
        else if DRIVE_TRAIN_TYPE cfg = ''MM1'' then
          Inr (V @ [Part ''RoboHATDriver'' [''angle'', ''throttle''] False])
        else if DRIVE_TRAIN_TYPE cfg = ''PIGPIO_PWM'' then
          Inr (V @ [Part ''PWMSteering'' [''angle''] True, Part ''PWMThrottle'' [''throttle''] True])
        else Inr V
      else Inr V)"

text \<open>The selectors that \<^verbatim>\<open>add_drivetrain\<close> compares \<^verbatim>\<open>cfg.DRIVE_TRAIN_TYPE\<close> with.\<close>

definition known_drivetrains :: "string list" where
  "known_drivetrains =
     [''MOCK'', ''PWM_STEERING_THROTTLE'', ''I2C_SERVO'', ''DC_STEER_THROTTLE'', ''DC_TWO_WHEEL'',
      ''DC_TWO_WHEEL_L298N'', ''SERVO_HBRIDGE_2PIN'', ''SERVO_HBRIDGE_3PIN'',
      ''SERVO_HBRIDGE_PWM'', ''MM1'', ''PIGPIO_PWM'']"

section \<open>Model hot reload\<close>

subsection \<open>The debounce stage\<close>

text \<open>
  Modelled from the spec: the class \<^verbatim>\<open>DelayedTrigger\<close> (donkeycar.parts.transform) is
  imported by the template and not among its sources. Section 4.4: the stage is configured
  with a number N of ticks and holds a countdown, which is 0 while no countdown runs.
\<close>

record DelayedTrigger =
  delay :: nat
  ticks :: nat

text \<open>
  Modelled from the spec: the constructor of \<^verbatim>\<open>DelayedTrigger\<close> is not among the sources.
  The stage as \<^verbatim>\<open>DelayedTrigger(n)\<close> builds it, with no countdown running; line 356 of the
  template builds it with 100 ticks.
\<close>

definition DelayedTrigger_init :: "nat \<Rightarrow> DelayedTrigger" where
  "DelayedTrigger_init n = \<lparr>delay = n, ticks = 0\<rparr>"

text \<open>
  Modelled from the spec: \<^verbatim>\<open>DelayedTrigger.run\<close> is not among the sources. Section 4.4: a
  dirty signal starts the N-tick countdown, and restarts it when one is running; a quiet
  tick counts a running countdown down, and the tick that brings it to 0, the N-th quiet
  tick in a row, emits the fire signal. The result is the fire signal and the stage after
  the tick.
\<close>

definition DelayedTrigger_run :: "DelayedTrigger \<Rightarrow> bool \<Rightarrow> bool \<times> DelayedTrigger" where
  "DelayedTrigger_run self dirty =
     (if dirty then (False, self\<lparr>ticks := delay self\<rparr>)
      else if ticks self = 0 then (False, self)
      else (ticks self = 1, self\<lparr>ticks := ticks self - 1\<rparr>))"

text \<open>The stage run over a trace of dirty signals, one per tick: the fire signals, and the
  stage at the end of the trace.\<close>

fun run_ticks :: "DelayedTrigger \<Rightarrow> bool list \<Rightarrow> bool list" where
  "run_ticks self [] = []"
| "run_ticks self (dirty # rest) =
     fst (DelayedTrigger_run self dirty) # run_ticks (snd (DelayedTrigger_run self dirty)) rest"

fun after_ticks :: "DelayedTrigger \<Rightarrow> bool list \<Rightarrow> DelayedTrigger" where
  "after_ticks self [] = self"
| "after_ticks self (dirty # rest) = after_ticks (snd (DelayedTrigger_run self dirty)) rest"

text \<open>The numbers of the ticks that carry a signal, the first tick of the trace being \<open>t\<close>.\<close>

fun signal_ticks_from :: "nat \<Rightarrow> bool list \<Rightarrow> nat list" where
  "signal_ticks_from t [] = []"
| "signal_ticks_from t (signal # rest) =
     (if signal then t # signal_ticks_from (Suc t) rest else signal_ticks_from (Suc t) rest)"

definition fire_ticks :: "bool list \<Rightarrow> nat list" where
  "fire_ticks fires = signal_ticks_from 0 fires"

text \<open>The trace of testable property 6 up to a horizon: dirty at ticks 0, 50 and 200.\<close>

definition dirty_at :: "nat \<Rightarrow> bool" where
  "dirty_at t = (t = 0 \<or> t = 50 \<or> t = 200)"

definition dirty_trace :: "nat \<Rightarrow> bool list" where
  "dirty_trace horizon = map dirty_at [0..<horizon]"

subsection \<open>Loading a model\<close>

text \<open>
  Python exceptions by what \<^verbatim>\<open>except Exception\<close> catches: \<open>Exception\<close> is an instance of
  \<^verbatim>\<open>Exception\<close>, \<open>BaseException\<close> one of the others (KeyboardInterrupt, SystemExit).
\<close>

datatype pyexc = Exception string | BaseException string

text \<open>What the loading code writes to the console, elapsed times left out.\<close>

datatype line =
  LoadingModel string
  | LoadingWeights string
  | FinishedLoading
  | PrintedExc pyexc
  | ErrWeights string
  | LoggedExc pyexc

text \<open>The state the reload touches: the pilot \<^verbatim>\<open>kl\<close> with its model, and the console.\<close>

record 'm pilot_state =
  kl :: 'm
  stdout :: "line list"

definition print_line :: "line \<Rightarrow> 'm pilot_state \<Rightarrow> 'm pilot_state" where
  "print_line l s = s\<lparr>stdout := stdout s @ [l]\<rparr>"

text \<open>
  The Keras pilot is not part of the template: \<^verbatim>\<open>kl.load(path)\<close> and
  \<^verbatim>\<open>kl.model.load_weights(path)\<close> are parameters. A loader takes the path and the pilot and
  gives the exception it raises, if any, and the pilot as it leaves it.
\<close>

type_synonym 'm loader = "string \<Rightarrow> 'm \<Rightarrow> pyexc option \<times> 'm"


text \<open>\<^verbatim>\<open>load_weights\<close> (lines 285 to 293) catches \<^verbatim>\<open>Exception\<close>, prints it and returns.\<close>

definition load_weights :: "'m loader \<Rightarrow> string \<Rightarrow> 'm pilot_state \<Rightarrow> pyexc option \<times> 'm pilot_state" where
  "load_weights kl_load_weights weights_path s =
     (let s1 = print_line (LoadingWeights weights_path) s;
          (raised, k) = kl_load_weights weights_path (kl s1);
          s2 = s1\<lparr>kl := k\<rparr>
      in case raised of
           None \<Rightarrow> (None, print_line FinishedLoading s2)
         | Some (Exception m) \<Rightarrow>
             (None, print_line (ErrWeights weights_path) (print_line (PrintedExc (Exception m)) s2))
         | Some (BaseException m) \<Rightarrow> (Some (BaseException m), s2))"


definition reload_weights :: "'m loader \<Rightarrow> string \<Rightarrow> 'm pilot_state \<Rightarrow> pyexc option \<times> 'm pilot_state" where
  "reload_weights kl_load_weights filename s =
     load_weights kl_load_weights (replace ''.json'' ''.weights'' filename) s"


subsection \<open>The trigger stage\<close>

text \<open>
  Modelled from the spec: \<^verbatim>\<open>TriggeredCallback.run\<close> (donkeycar.parts.transform) is not among
  the sources. Section 4.4 (3): on a fire signal the stage calls the bound callback once
  with its argument, catches any exception the callback raises and logs it; without a fire
  signal it does nothing. The stage itself never raises.
\<close>

definition TriggeredCallback_run ::
  "string \<Rightarrow> (string \<Rightarrow> 'm pilot_state \<Rightarrow> pyexc option \<times> 'm pilot_state) \<Rightarrow> bool \<Rightarrow>
   'm pilot_state \<Rightarrow> pyexc option \<times> 'm pilot_state" where
  "TriggeredCallback_run args func_cb trigger s =
     (if trigger then
        (case func_cb args s of
           (None, s') \<Rightarrow> (None, s')
         | (Some e, s') \<Rightarrow> (None, print_line (LoggedExc e) s'))
      else (None, s))"


text \<open>A loader for the worked examples: it raises the given exception and leaves the pilot
  alone.\<close>

definition failing_loader :: "pyexc \<Rightarrow> nat loader" where
  "failing_loader e path k = (Some e, k)"


text \<open>Two exceptions and a pilot state for the worked examples; the model is a version number.\<close>

definition truncated_file :: pyexc where
  "truncated_file = Exception ''truncated file''"


definition pilot_v1 :: "nat pilot_state" where
  "pilot_v1 = \<lparr>kl = 1, stdout = []\<rparr>"

section \<open>Properties\<close>

subsection \<open>Strings\<close>

lemma endswith_iff_suffix: "endswith s suf = suffix suf s"
proof
  assume "endswith s suf"
  then have "s = take (length s - length suf) s @ suf"
    by (metis append_take_drop_id endswith_def)
  then show "suffix suf s"
    by (metis suffixI)
next
  assume "suffix suf s"
  then obtain pre where "s = pre @ suf"
    by (auto simp: suffix_def)
  then show "endswith s suf"
    by (simp add: endswith_def)
qed

subsection \<open>Gating conditions\<close>

text \<open>
  C2. Whatever the user/mode channel holds, \<^verbatim>\<open>PilotCondition.run\<close> and
  \<^verbatim>\<open>AiRunCondition.run\<close> return the same boolean, and it is true exactly when the mode is
  not the string 'user'.
\<close>

theorem run_pilot_and_ai_running:
  "PilotCondition_run mode = (mode \<noteq> Some ''user'')
   \<and> AiRunCondition_run mode = (mode \<noteq> Some ''user'')
   \<and> PilotCondition_run mode = AiRunCondition_run mode"
  by (simp add: PilotCondition_run_def AiRunCondition_run_def)

theorem run_pilot_and_ai_running_witness:
  "PilotCondition_run (Some ''local'') = True \<and> AiRunCondition_run (Some ''local'') = True
   \<and> PilotCondition_run (Some ''user'') = False \<and> AiRunCondition_run (Some ''user'') = False
   \<and> PilotCondition_run None = True"
  using run_pilot_and_ai_running [of "Some ''local''"]
    run_pilot_and_ai_running [of "Some ''user''"]
    run_pilot_and_ai_running [of None]
  by simp

text \<open>
  C3. \<^verbatim>\<open>SpeedControlCondition.run\<close> is true exactly when the capability flag is set and
  the mode is 'local'; \<^verbatim>\<open>NotCondition.run\<close> negates its input; so after the two parts have
  run in a pass, use_throttle_control is the negation of use_speed_control and exactly one
  of the two channels is true.
\<close>

theorem speed_control_exclusive:
  "SpeedControlCondition_run flag mode = (flag \<and> mode = Some ''local'')
   \<and> NotCondition_run c = (\<not> c)
   \<and> speed_control_channels flag mode
       = (flag \<and> mode = Some ''local'', \<not> (flag \<and> mode = Some ''local''))
   \<and> snd (speed_control_channels flag mode) = (\<not> fst (speed_control_channels flag mode))
   \<and> (fst (speed_control_channels flag mode) \<and> \<not> snd (speed_control_channels flag mode)
        \<or> \<not> fst (speed_control_channels flag mode) \<and> snd (speed_control_channels flag mode))"
  by (auto simp: SpeedControlCondition_run_def NotCondition_run_def speed_control_channels_def)

theorem speed_control_exclusive_witness:
  "speed_control_channels True (Some ''local'') = (True, False)
   \<and> speed_control_channels True (Some ''local_angle'') = (False, True)
   \<and> speed_control_channels False (Some ''local'') = (False, True)"
  using speed_control_exclusive [of True "Some ''local''" True]
    speed_control_exclusive [of True "Some ''local_angle''" True]
    speed_control_exclusive [of False "Some ''local''" True]
  by simp

text \<open>
  C9. The flag handed to \<^verbatim>\<open>SpeedControlCondition\<close> is the conjunction of
  \<^verbatim>\<open>cfg.HAVE_ODOM\<close> and "the model type in force ends with 'velocity'"; when either fails,
  the use_speed_control channel is false for every mode.
\<close>

theorem speed_control_needs_odom_and_velocity:
  "have_speed_control cfg model_type
     = (HAVE_ODOM cfg \<and> suffix ''velocity'' (resolve_model_type cfg model_type))
   \<and> (\<not> (HAVE_ODOM cfg \<and> suffix ''velocity'' (resolve_model_type cfg model_type))
        \<longrightarrow> (\<forall>mode. \<not> use_speed_control cfg model_type mode))"
proof -
  have flag: "have_speed_control cfg model_type
     = (HAVE_ODOM cfg \<and> suffix ''velocity'' (resolve_model_type cfg model_type))"
    by (simp add: have_speed_control_def is_velocity_model_def endswith_iff_suffix)
  have "\<not> use_speed_control cfg model_type mode"
    if "\<not> have_speed_control cfg model_type" for mode
    using that
    by (simp add: use_speed_control_def speed_control_channels_def SpeedControlCondition_run_def)
  with flag show ?thesis
    by blast
qed

theorem speed_control_needs_odom_and_velocity_witness:
  "\<not> suffix ''velocity'' (resolve_model_type example_cfg None)
   \<and> \<not> use_speed_control example_cfg None (Some ''local'')
   \<and> \<not> HAVE_ODOM (example_cfg\<lparr>HAVE_ODOM := False\<rparr>)
   \<and> \<not> use_speed_control (example_cfg\<lparr>HAVE_ODOM := False\<rparr>) (Some ''tflite_velocity'')
         (Some ''local'')"
proof -
  have a: "\<not> suffix ''velocity'' (resolve_model_type example_cfg None)"
    by (simp add: resolve_model_type_def example_cfg_def suffix_to_prefix)
  have b: "\<not> HAVE_ODOM (example_cfg\<lparr>HAVE_ODOM := False\<rparr>)"
    by simp
  from a b show ?thesis
    using speed_control_needs_odom_and_velocity [of example_cfg None]
      speed_control_needs_odom_and_velocity
        [of "example_cfg\<lparr>HAVE_ODOM := False\<rparr>" "Some ''tflite_velocity''"]
    by blast
qed

text \<open>
  C6. With \<^verbatim>\<open>cfg.RECORD_DURING_AI\<close> set, the recording channel after
  \<^verbatim>\<open>AiRecordingCondition\<close> is true whenever the mode is not 'user', whatever the recording
  flag was, and is the incoming flag unchanged when the mode is 'user'.
\<close>

theorem ai_recording_condition:
  assumes "RECORD_DURING_AI cfg"
  shows "(mode \<noteq> Some ''user'' \<longrightarrow> recording_channel cfg mode recording = Some True)
         \<and> (mode = Some ''user'' \<longrightarrow> recording_channel cfg mode recording = recording)"
  using assms by (simp add: recording_channel_def AiRecordingCondition_run_def)

theorem ai_recording_condition_witness:
  "RECORD_DURING_AI example_cfg
   \<and> recording_channel example_cfg (Some ''local'') (Some False) = Some True
   \<and> recording_channel example_cfg (Some ''local_angle'') None = Some True
   \<and> recording_channel example_cfg (Some ''user'') (Some False) = Some False"
proof -
  have on: "RECORD_DURING_AI example_cfg"
    by (simp add: example_cfg_def)
  show ?thesis
    using on ai_recording_condition [OF on, of "Some ''local''" "Some False"]
      ai_recording_condition [OF on, of "Some ''local_angle''" None]
      ai_recording_condition [OF on, of "Some ''user''" "Some False"]
    by simp
qed

subsection \<open>The command blend\<close>

text \<open>
  C1. \<^verbatim>\<open>DriveMode.run\<close> returns the blend table for every mode and every combination of
  the six command inputs: in mode 'user' the user's angle and throttle with null speed and
  angular velocity; in mode 'local_angle' the pilot's angle (0.0 when it is null or zero),
  the user's throttle and null speed and angular velocity; in every other mode the pilot's
  angle (0.0 when null or zero), the pilot's throttle times \<^verbatim>\<open>AI_THROTTLE_MULT\<close> (0.0 when
  the pilot's throttle is null or zero) and the pilot's speed and angular velocity.
\<close>

theorem drive_mode_blend_table:
  "(mode = Some ''user'' \<longrightarrow>
      DriveMode_run cfg mode ua ut pa pt ps pav = (ua, ut, None, None))
   \<and> (mode = Some ''local_angle'' \<longrightarrow>
      DriveMode_run cfg mode ua ut pa pt ps pav
        = (if pa = None \<or> pa = Some 0 then Some 0 else pa, ut, None, None))
   \<and> (mode \<noteq> Some ''user'' \<and> mode \<noteq> Some ''local_angle'' \<longrightarrow>
      DriveMode_run cfg mode ua ut pa pt ps pav
        = (if pa = None \<or> pa = Some 0 then Some 0 else pa,
           if pt = None \<or> pt = Some 0 then Some 0
           else map_option (\<lambda>t. t * AI_THROTTLE_MULT cfg) pt,
           ps, pav))"
proof -
  have angle: "(if truthy v then v else Some 0) = (if v = None \<or> v = Some 0 then Some 0 else v)"
    for v
    by (cases v) (simp_all add: truthy_def)
  have throttle:
    "(case pt of Some t \<Rightarrow> if t \<noteq> 0 then Some (t * m) else Some 0 | None \<Rightarrow> Some 0)
       = (if pt = None \<or> pt = Some 0 then Some 0 else map_option (\<lambda>t. t * m) pt)" for m
    by (cases pt) simp_all
  show ?thesis
    unfolding DriveMode_run_def angle throttle by simp
qed

theorem drive_mode_blend_table_witness:
  "DriveMode_run example_cfg (Some ''local'') (Some 1) (Some 1) (Some (1 / 4)) (Some (1 / 2))
       (Some 2) None
     = (Some (1 / 4), Some (2 / 5), Some 2, None)
   \<and> DriveMode_run example_cfg (Some ''local'') (Some 1) (Some 1) None None None None
     = (Some 0, Some 0, None, None)
   \<and> DriveMode_run example_cfg (Some ''local_angle'') (Some 1) (Some (1 / 3)) (Some 0)
       (Some (1 / 2)) (Some 2) (Some 3)
     = (Some 0, Some (1 / 3), None, None)
   \<and> DriveMode_run example_cfg (Some ''user'') (Some 1) (Some (1 / 3)) (Some (1 / 4))
       (Some (1 / 2)) (Some 2) (Some 3)
     = (Some 1, Some (1 / 3), None, None)"
  using drive_mode_blend_table [of "Some ''local''" example_cfg "Some 1" "Some 1" "Some (1 / 4)"
      "Some (1 / 2)" "Some 2" None]
    drive_mode_blend_table [of "Some ''local''" example_cfg "Some 1" "Some 1" None None None None]
    drive_mode_blend_table [of "Some ''local_angle''" example_cfg "Some 1" "Some (1 / 3)" "Some 0"
      "Some (1 / 2)" "Some 2" "Some 3"]
    drive_mode_blend_table [of "Some ''user''" example_cfg "Some 1" "Some (1 / 3)" "Some (1 / 4)"
      "Some (1 / 2)" "Some 2" "Some 3"]
  by (simp add: example_cfg_def)

subsection \<open>The status LED\<close>

lemma led_rate_when_lookups_succeed:
  assumes "\<not> led_lookup_fails cfg model_type recording_alert behavior_state model_file_changed
             track_loc"
  shows "returned_rate
           (LedConditionLogic_run cfg model_type mode recording recording_alert behavior_state
              model_file_changed track_loc)
         = Some (first_match
                   (led_rules cfg model_type mode recording recording_alert behavior_state
                      model_file_changed track_loc) 0)"
proof (cases track_loc)
  case (Some loc)
  with assms show ?thesis
    by (auto simp: led_lookup_fails_def LedConditionLogic_run_def led_rules_def
        returned_rate_def)
next
  case None
  note no_loc = this
  show ?thesis
  proof (cases recording_alert)
    case (AlertColor c)
    with no_loc show ?thesis
      by (simp add: LedConditionLogic_run_def led_rules_def returned_rate_def)
  next
    case NoAlert
    with no_loc assms show ?thesis
      by (cases behavior_state)
        (auto simp: led_lookup_fails_def LedConditionLogic_run_def led_rules_def
          returned_rate_def)
  qed
qed

lemma led_raises_when_lookup_fails:
  assumes "led_lookup_fails cfg model_type recording_alert behavior_state model_file_changed
             track_loc"
  shows "LedConditionLogic_run cfg model_type mode recording recording_alert behavior_state
           model_file_changed track_loc = Inl LookupError"
  using assms
  by (auto simp: led_lookup_fails_def LedConditionLogic_run_def split: option.splits)

text \<open>
  C7, as stated, fails where the rule that wins has no colour for its key: with location 7
  and a location table that knows only locations 0 and 1, \<^verbatim>\<open>LedConditionLogic.run\<close> raises
  instead of returning the rate of the known-location rule.
\<close>

theorem led_unknown_location_counterexample:
  "LedConditionLogic_run example_cfg ''linear'' (Some ''user'') False NoAlert None False (Some 7)
     = Inl LookupError
   \<and> returned_rate
       (LedConditionLogic_run example_cfg ''linear'' (Some ''user'') False NoAlert None False
          (Some 7))
     \<noteq> Some (first_match
               (led_rules example_cfg ''linear'' (Some ''user'') False NoAlert None False (Some 7))
               0)"
  by (simp add: LedConditionLogic_run_def example_cfg_def returned_rate_def)

text \<open>
  C7, amended. For every input tuple on which the colour look-up of the winning rule
  succeeds (the location, when there is one, is a key of \<^verbatim>\<open>cfg.LOC_COLORS\<close>; the behaviour
  state, when the behaviour rule is reached, is a key of \<^verbatim>\<open>cfg.BEHAVIOR_LED_COLORS\<close>),
  \<^verbatim>\<open>LedConditionLogic.run\<close> returns the blink rate of the first matching rule in the order
  known location, model just reloaded, record-count alert, behaviour state, active
  recording, mode; the mode rates are 1 for 'user', 0.5 for 'local_angle', 0.1 for 'local'
  and 0 otherwise. On the remaining inputs the look-up raises and nothing is returned.
\<close>

theorem led_blink_rate_priority:
  "(\<not> led_lookup_fails cfg model_type recording_alert behavior_state model_file_changed
        track_loc
      \<longrightarrow> returned_rate
            (LedConditionLogic_run cfg model_type mode recording recording_alert behavior_state
               model_file_changed track_loc)
          = Some (first_match
                    (led_rules cfg model_type mode recording recording_alert behavior_state
                       model_file_changed track_loc) 0))
   \<and> (led_lookup_fails cfg model_type recording_alert behavior_state model_file_changed track_loc
      \<longrightarrow> LedConditionLogic_run cfg model_type mode recording recording_alert behavior_state
            model_file_changed track_loc = Inl LookupError)"
  using led_rate_when_lookups_succeed led_raises_when_lookup_fails by blast

theorem led_blink_rate_priority_witness:
  "\<not> led_lookup_fails example_cfg ''linear'' NoAlert (Some 5) False None
   \<and> returned_rate
       (LedConditionLogic_run example_cfg ''linear'' (Some ''local_angle'') False NoAlert (Some 5)
          False None)
     = Some (1 / 2)
   \<and> \<not> led_lookup_fails example_cfg ''behavior'' NoAlert (Some 1) True (Some 1)
   \<and> returned_rate
       (LedConditionLogic_run example_cfg ''behavior'' (Some ''user'') True NoAlert (Some 1) True
          (Some 1))
     = Some (- 1)
   \<and> led_lookup_fails example_cfg ''behavior'' NoAlert (Some 2) False None
   \<and> LedConditionLogic_run example_cfg ''behavior'' (Some ''user'') True NoAlert (Some 2) False
       None
     = Inl LookupError"
proof -
  have a: "\<not> led_lookup_fails example_cfg ''linear'' NoAlert (Some 5) False None"
    by (simp add: led_lookup_fails_def)
  have b: "\<not> led_lookup_fails example_cfg ''behavior'' NoAlert (Some 1) True (Some 1)"
    by (simp add: led_lookup_fails_def example_cfg_def)
  have c: "led_lookup_fails example_cfg ''behavior'' NoAlert (Some 2) False None"
    by (simp add: led_lookup_fails_def example_cfg_def)
  show ?thesis
    using a b c
      led_blink_rate_priority [of example_cfg "''linear''" NoAlert "Some 5" False None
        "Some ''local_angle''" False]
      led_blink_rate_priority [of example_cfg "''behavior''" NoAlert "Some 1" True "Some 1"
        "Some ''user''" True]
      led_blink_rate_priority [of example_cfg "''behavior''" NoAlert "Some 2" False None
        "Some ''user''" True]
    by (simp add: led_rules_def)
qed

subsection \<open>The record counter\<close>

text \<open>
  C10. When the record-count channel is absent (\<^verbatim>\<open>num_records\<close> is \<^verbatim>\<open>None\<close>),
  \<^verbatim>\<open>RecordTracker.run\<close> returns 0, the no-alert value, at once: nothing is printed, no
  exception is raised whatever the configuration is, and the three fields of the tracker
  (last printed count, alert duration, force-alert flag) are what they were.
\<close>

theorem record_tracker_absent_count:
  "RecordTracker_run cfg self None = Inr (NoAlert, self, [])"
  by (simp add: RecordTracker_run_def)

theorem record_tracker_absent_count_witness:
  "RecordTracker_run (example_cfg\<lparr>REC_COUNT_ALERT := 0\<rparr>)
       \<lparr>last_num_rec_print = 990, dur_alert = 3, force_alert = 1\<rparr> None
     = Inr (NoAlert, \<lparr>last_num_rec_print = 990, dur_alert = 3, force_alert = 1\<rparr>, [])"
  using record_tracker_absent_count
    [of "example_cfg\<lparr>REC_COUNT_ALERT := 0\<rparr>"
        "\<lparr>last_num_rec_print = 990, dur_alert = 3, force_alert = 1\<rparr>"]
  by simp

text \<open>
  For comparison, the same tracker on a present count: the forced alert is taken, the
  fields change and a colour is returned.
\<close>

lemma record_tracker_present_count_example:
  "RecordTracker_run example_cfg \<lparr>last_num_rec_print = 990, dur_alert = 3, force_alert = 1\<rparr>
       (Some 3000)
     = Inr (AlertColor (5, 5, 5), \<lparr>last_num_rec_print = 3000, dur_alert = 44, force_alert = 0\<rparr>,
            [3000])"
  by (simp add: RecordTracker_run_def example_cfg_def get_record_alert_color_def Let_def)

subsection \<open>Drivetrain set-up\<close>

text \<open>
  Whatever selector is outside the list that the function tests, and no simulator: the
  vehicle is returned as it was and nothing is raised.
\<close>

lemma add_drivetrain_unknown_selector:
  assumes "\<not> DONKEY_GYM cfg" and "DRIVE_TRAIN_TYPE cfg \<notin> set known_drivetrains"
  shows "add_drivetrain V cfg = Inr V"
  using assms by (simp add: add_drivetrain_def known_drivetrains_def)

lemma add_drivetrain_errors:
  "add_drivetrain V cfg = Inl e \<Longrightarrow> e = UnboundLocalError \<or> e = AssertionError"
  by (auto simp: add_drivetrain_def split: if_splits)

text \<open>
  C5. The claim asks for a fatal configuration error on a drivetrain selector that is none
  of the known ones. The code does not raise: with the selector 'PWM_STEERING' (a
  misspelling of 'PWM_STEERING_THROTTLE') \<^verbatim>\<open>add_drivetrain\<close> returns normally and has
  added no part to the vehicle.
\<close>

theorem add_drivetrain_accepts_unknown_selector:
  "add_drivetrain [] (example_cfg\<lparr>DRIVE_TRAIN_TYPE := ''PWM_STEERING''\<rparr>) = Inr []"
  by (simp add: add_drivetrain_def example_cfg_def)

subsection \<open>The debounce stage\<close>

lemma run_ticks_append:
  "run_ticks self (xs @ ys) = run_ticks self xs @ run_ticks (after_ticks self xs) ys"
  by (induction xs arbitrary: self) simp_all

lemma run_ticks_quiet_idle:
  "ticks self = 0 \<Longrightarrow> run_ticks self (replicate k False) = replicate k False"
  by (induction k) (simp_all add: DelayedTrigger_run_def)

lemma signal_ticks_from_quiet_suffix:
  "signal_ticks_from t (fires @ replicate k False) = signal_ticks_from t fires"
proof (induction fires arbitrary: t)
  case Nil
  show ?case by (induction k arbitrary: t) simp_all
next
  case (Cons f fires)
  then show ?case by simp
qed

lemma dirty_trace_beyond_301:
  "dirty_trace (301 + k) = dirty_trace 301 @ replicate k False"
proof -
  have "map dirty_at [301..<301 + k] = map (\<lambda>t. False) [301..<301 + k]"
    by (rule map_cong) (auto simp: dirty_at_def)
  then have "map dirty_at [301..<301 + k] = replicate k False"
    by (simp add: map_replicate_const)
  moreover have "[0..<301 + k] = [0..<301] @ [301..<301 + k]"
    by (metis le_add1 upt_add_eq_append zero_le)
  ultimately show ?thesis
    by (simp add: dirty_trace_def)
qed

lemma fires_up_to_301:
  "fire_ticks (run_ticks (DelayedTrigger_init 100) (dirty_trace 301)) = [150, 300]"
  by code_simp

lemma idle_after_301:
  "ticks (after_ticks (DelayedTrigger_init 100) (dirty_trace 301)) = 0"
  by code_simp

text \<open>
  C8, as stated, fails on the debounce stage of section 4.4. The dirty signal at tick 50
  restarts the countdown, ticks 51 to 150 are 100 quiet ticks in a row, and the stage fires
  at tick 150, before the dirty signal of tick 200 arrives: the fire at tick 300 is neither
  the only one nor the earliest.
\<close>

theorem debounce_trace_counterexample:
  "run_ticks (DelayedTrigger_init 100) (dirty_trace 301) ! 150 = True
   \<and> fire_ticks (run_ticks (DelayedTrigger_init 100) (dirty_trace 301)) \<noteq> [300]"
  by code_simp

text \<open>
  C8, amended. For the debounce stage configured with N = 100 ticks, the trace with dirty
  signals at ticks 0, 50 and 200 and quiet ticks elsewhere, run to any horizon beyond tick
  300, produces exactly two fire signals, at ticks 150 and 300: the dirty signal at tick 50
  restarts the countdown, so nothing fires at tick 100, and each fire comes after 100
  quiet ticks in a row.
\<close>

theorem debounce_trace_fires_twice:
  "fire_ticks (run_ticks (DelayedTrigger_init 100) (dirty_trace (301 + k))) = [150, 300]"
proof -
  have "run_ticks (DelayedTrigger_init 100) (dirty_trace (301 + k))
        = run_ticks (DelayedTrigger_init 100) (dirty_trace 301) @ replicate k False"
    by (simp add: dirty_trace_beyond_301 run_ticks_append run_ticks_quiet_idle idle_after_301)
  then show ?thesis
    using fires_up_to_301 by (simp add: fire_ticks_def signal_ticks_from_quiet_suffix)
qed

theorem debounce_trace_fires_twice_witness:
  "fire_ticks (run_ticks (DelayedTrigger_init 100) (dirty_trace 1000)) = [150, 300]"
  using debounce_trace_fires_twice [of 699] by simp

subsection \<open>Reload failures\<close>

lemma TriggeredCallback_never_raises:
  "fst (TriggeredCallback_run args func_cb trigger s) = None"
  by (simp add: TriggeredCallback_run_def split: prod.splits option.splits)




lemma load_weights_catches_Exception:
  assumes "kl_load_weights weights_path (kl s) = (Some (Exception m), k)"
  shows "load_weights kl_load_weights weights_path s
         = (None, \<lparr>kl = k, stdout = stdout s @ [LoadingWeights weights_path,
              PrintedExc (Exception m), ErrWeights weights_path]\<rparr>)"
  using assms by (simp add: load_weights_def print_line_def Let_def)





text \<open>
  An \<^verbatim>\<open>Exception\<close> of the weights loader does not reach the trigger stage: the json callback
  prints it and returns, and the stage has nothing to catch.
\<close>

lemma json_reload_catches_Exception:
  "TriggeredCallback_run ''pilot.json'' (reload_weights (failing_loader truncated_file)) True
       pilot_v1
     = (None, \<lparr>kl = 1, stdout = [LoadingWeights ''pilot.weights'', PrintedExc truncated_file,
                                 ErrWeights ''pilot.weights'']\<rparr>)"
  by (simp add: TriggeredCallback_run_def reload_weights_def replace_def startswith_def
      load_weights_def failing_loader_def print_line_def truncated_file_def pilot_v1_def)

end
